theory Spec2Isabelle
  imports Complex_Main "HOL-Library.Finite_Map"
begin

section \<open>JavaScript values used by the engine\<close>

text \<open>
  A JavaScript number is a finite value, one of the two infinities, or NaN. The engine
  only stores numbers and compares them, so a finite number is modelled by the real it
  denotes (the two zeros are one value, as they are for every comparison of the source).
\<close>

datatype jsnum = Num real | PosInfinity | NegInfinity | NaN

text \<open>\<^verbatim>\<open>a < b\<close> on numbers: false as soon as one side is NaN.\<close>

definition num_lt :: "jsnum \<Rightarrow> jsnum \<Rightarrow> bool" where
  "num_lt a b =
     (case a of
        NaN \<Rightarrow> False
      | NegInfinity \<Rightarrow> (case b of NaN \<Rightarrow> False | NegInfinity \<Rightarrow> False | _ \<Rightarrow> True)
      | PosInfinity \<Rightarrow> False
      | Num r \<Rightarrow> (case b of NaN \<Rightarrow> False | NegInfinity \<Rightarrow> False | PosInfinity \<Rightarrow> True
                  | Num s \<Rightarrow> r < s))"

text \<open>\<^verbatim>\<open>a === b\<close> on numbers: NaN equals nothing, itself included.\<close>

definition num_eq :: "jsnum \<Rightarrow> jsnum \<Rightarrow> bool" where
  "num_eq a b = (a \<noteq> NaN \<and> a = b)"

text \<open>\<^verbatim>\<open>a <= b\<close> and \<^verbatim>\<open>a >= b\<close>.\<close>

definition num_le :: "jsnum \<Rightarrow> jsnum \<Rightarrow> bool" where
  "num_le a b = (num_lt a b \<or> num_eq a b)"

definition num_ge :: "jsnum \<Rightarrow> jsnum \<Rightarrow> bool" where
  "num_ge a b = num_le b a"

text \<open>
  The values a property of a game object holds: the primitives, BigInt among them, and
  a reference to a nested object or array (such as \<^verbatim>\<open>position: { x: 5, y: 5 }\<close>). The
  engine reads no property of a nested object itself; \<^verbatim>\<open>JSON.stringify\<close>, which it
  calls on every change, walks through all of them.
\<close>

datatype jsval =
  JUndefined | JNull | JBool bool | JNum jsnum | JBigInt int | JStr string | JRef nat

text \<open>The exceptions of the platform that the engine meets.\<close>

datatype exn = SyntaxError | TypeError

text \<open>What \<^verbatim>\<open>if (v)\<close> and \<^verbatim>\<open>!v\<close> test.\<close>

definition truthy :: "jsval \<Rightarrow> bool" where
  "truthy v =
     (case v of
        JUndefined \<Rightarrow> False
      | JNull \<Rightarrow> False
      | JBool b \<Rightarrow> b
      | JNum n \<Rightarrow> (n \<noteq> Num 0 \<and> n \<noteq> NaN)
      | JBigInt n \<Rightarrow> n \<noteq> 0
      | JStr s \<Rightarrow> s \<noteq> []
      | JRef r \<Rightarrow> True)"

text \<open>\<^verbatim>\<open>a === b\<close>: equal values of the same type; numbers as above.\<close>

definition strict_eq :: "jsval \<Rightarrow> jsval \<Rightarrow> bool" where
  "strict_eq a b = (case a of JNum m \<Rightarrow> (case b of JNum n \<Rightarrow> num_eq m n | _ \<Rightarrow> False) | _ \<Rightarrow> a = b)"

text \<open>
  A game object of the reality matrix is a plain object: an open, finite bag of own
  properties. The prototype of an object is not part of the model; the one property the
  engine reads, \<^verbatim>\<open>id\<close>, is taken to be an own property where there is one, and reading
  it where there is none gives \<^verbatim>\<open>undefined\<close>.
\<close>

type_synonym entity = "(string, jsval) fmap"

definition get :: "entity \<Rightarrow> string \<Rightarrow> jsval" where
  "get obj k = (case fmlookup obj k of None \<Rightarrow> JUndefined | Some v \<Rightarrow> v)"

text \<open>
  \<^verbatim>\<open>Object.assign(target, source)\<close> writes every own property of the source to the
  target by assignment; the target's other properties stay. An assignment to the key
  \<^verbatim>\<open>__proto__\<close> goes to the setter of the prototype: it never makes an own property of
  the target, so an own key \<^verbatim>\<open>__proto__\<close> of the source is not copied. The setter
  ignores a primitive; an object it makes the prototype of the target, and it throws
  when that would close a cycle of prototypes. The prototype is outside the model, so
  the theorem on \<^verbatim>\<open>modify\<close> leaves out a source whose \<^verbatim>\<open>__proto__\<close> holds an object.
\<close>

definition object_assign :: "entity \<Rightarrow> entity \<Rightarrow> entity" where
  "object_assign target source = fmadd target (fmdrop ''__proto__'' source)"

section \<open>RealityMatrix.js: the world\<close>

datatype coords = Coords (cx: jsnum) (cy: jsnum) (cz: jsnum)

record zeroPoint =
  frequency :: jsnum
  zp_coordinates :: coords

record blinkSpot =
  spot_id :: string
  spot_coordinates :: coords
  time :: string

record world =
  dimensions :: coords
  ocularComposition :: string
  processingModel :: string
  objects :: "entity list"
  timeState :: string
  timeSpeedMultiplier :: jsnum
  dataSources :: "string list"
  zeroPoint :: zeroPoint
  blinkSpots :: "blinkSpot list option"

definition createWorld :: "coords \<Rightarrow> string \<Rightarrow> string \<Rightarrow> string list \<Rightarrow> world" where
  "createWorld dims composition model sources =
     \<lparr> dimensions = dims,
       ocularComposition = composition,
       processingModel = model,
       objects = [],
       timeState = ''PLAY'',
       timeSpeedMultiplier = Num 1,
       dataSources = sources,
       zeroPoint = \<lparr> frequency = Num 0, zp_coordinates = Coords (Num 0) (Num 0) (Num 0) \<rparr>,
       blinkSpots = None \<rparr>"

subsection \<open>controlTime\<close>

definition valid_states :: "string list" where
  "valid_states = [''PLAY'', ''PAUSE'', ''STOP'', ''FAST FORWARD'', ''REWIND'']"

text \<open>
  The third argument is optional: left out (\<open>None\<close>), the parameter takes its default 1.
  The function first stores the requested state and speed, then the \<^verbatim>\<open>switch\<close> reverts
  FAST FORWARD and REWIND to PLAY at speed 1 when \<^verbatim>\<open>speed <= 0\<close>. On a label outside
  the list the state is written back from \<^verbatim>\<open>previousState\<close> and the multiplier is set
  to 1.
\<close>

definition controlTime :: "world \<Rightarrow> string \<Rightarrow> jsnum option \<Rightarrow> world" where
  "controlTime w state speedArg =
     (let speed = (case speedArg of None \<Rightarrow> Num 1 | Some s \<Rightarrow> s);
          previousState = timeState w
      in if state \<in> set valid_states then
           (let w1 = w\<lparr> timeState := state,
                        timeSpeedMultiplier :=
                          (if state = ''FAST FORWARD'' \<or> state = ''REWIND'' then speed else Num 1) \<rparr>
            in if state = ''FAST FORWARD'' then
                 (if num_le speed (Num 0)
                  then w1\<lparr> timeState := ''PLAY'', timeSpeedMultiplier := Num 1 \<rparr> else w1)
               else if state = ''REWIND'' then
                 (if num_le speed (Num 0)
                  then w1\<lparr> timeState := ''PLAY'', timeSpeedMultiplier := Num 1 \<rparr> else w1)
               else w1)
         else w\<lparr> timeState := previousState, timeSpeedMultiplier := Num 1 \<rparr>)"

subsection \<open>alterReality\<close>

text \<open>
  A change record: \<open>type\<close> selects the case of the \<^verbatim>\<open>switch\<close>; the other fields are
  present or not (\<open>None\<close>, and \<open>JUndefined\<close> for \<open>targetId\<close>). The model is by value:
  a change holds the properties of its object as they are when the change is applied,
  a world holds each of its objects once, and what a caller who kept a reference to an
  object does to it between two changes is outside the model.
\<close>

record change =
  type :: string
  object :: "entity option"
  targetId :: jsval
  properties :: "entity option"
  coordinates :: "coords option"

text \<open>Decimal digits of a length, for the id of a blink spot.\<close>

fun string_of_nat :: "nat \<Rightarrow> string" where
  "string_of_nat n =
     (if n < 10 then [char_of (48 + n)]
      else string_of_nat (n div 10) @ [char_of (48 + n mod 10)])"

declare string_of_nat.simps [simp del]

text \<open>
  \<^verbatim>\<open>Object.assign(targetObject, ...)\<close> writes into the object that \<^verbatim>\<open>find\<close> returned,
  the first one of the array that satisfies the test; it stays at its place in the array.
\<close>

fun assign_first :: "(entity \<Rightarrow> bool) \<Rightarrow> entity \<Rightarrow> entity list \<Rightarrow> entity list" where
  "assign_first P props [] = []"
| "assign_first P props (obj # objs) =
     (if P obj then object_assign obj props # objs else obj # assign_first P props objs)"

text \<open>
  The first statement of every turn of the loop logs \<^verbatim>\<open>JSON.stringify(change)\<close>.
  The text goes to the console, which is not modelled; what counts is that the call
  throws a TypeError when it meets a BigInt or an object it is already inside of (a
  cycle). A BigInt is seen in the change itself; what lies behind the reference to a
  nested object is not, so the parameter \<open>unserialisable\<close> says of each reference whether
  walking through the object it stands for throws. The other log lines turn an id or a
  type into text, which throws for no primitive and no plain object.
\<close>

definition serialisable :: "(nat \<Rightarrow> bool) \<Rightarrow> jsval \<Rightarrow> bool" where
  "serialisable unserialisable v =
     (case v of JBigInt n \<Rightarrow> False | JRef r \<Rightarrow> \<not> unserialisable r | _ \<Rightarrow> True)"

definition json_stringify :: "(nat \<Rightarrow> bool) \<Rightarrow> change \<Rightarrow> exn + unit" where
  "json_stringify unserialisable c =
     (if serialisable unserialisable (targetId c)
         \<and> (case object c of
               None \<Rightarrow> True
             | Some obj \<Rightarrow> fmpred (\<lambda>k v. serialisable unserialisable v) obj)
         \<and> (case properties c of
               None \<Rightarrow> True
             | Some props \<Rightarrow> fmpred (\<lambda>k v. serialisable unserialisable v) props)
      then Inr () else Inl TypeError)"

text \<open>The \<^verbatim>\<open>switch\<close> of one turn of the loop over the changes.\<close>

definition applyChange :: "world \<Rightarrow> change \<Rightarrow> world" where
  "applyChange w c =
     (if type c = ''add'' then
        (case object c of
           None \<Rightarrow> w
         | Some obj \<Rightarrow>
             if \<not> truthy (get obj ''id'') then w
             else (case find (\<lambda>e. strict_eq (get e ''id'') (get obj ''id'')) (objects w) of
                     Some existingObject \<Rightarrow> w
                   | None \<Rightarrow> w\<lparr> objects := objects w @ [obj] \<rparr>))
      else if type c = ''remove'' then
        (if \<not> truthy (targetId c) then w
         else w\<lparr> objects := filter (\<lambda>e. \<not> strict_eq (get e ''id'') (targetId c)) (objects w) \<rparr>)
      else if type c = ''modify'' then
        (if \<not> truthy (targetId c) then w
         else (case properties c of
                 None \<Rightarrow> w
               | Some props \<Rightarrow>
                   (case find (\<lambda>e. strict_eq (get e ''id'') (targetId c)) (objects w) of
                      Some targetObject \<Rightarrow>
                        w\<lparr> objects :=
                             assign_first (\<lambda>e. strict_eq (get e ''id'') (targetId c)) props (objects w) \<rparr>
                    | None \<Rightarrow> w)))
      else if type c = ''createBlinkSpot'' then
        (case coordinates c of
           None \<Rightarrow> w
         | Some co \<Rightarrow>
             (let newBlinkSpot =
                    \<lparr> spot_id = ''blinkSpot-'' @
                        string_of_nat (case blinkSpots w of None \<Rightarrow> 0 | Some spots \<Rightarrow> length spots),
                      spot_coordinates = co,
                      time = timeState w \<rparr>
              in w\<lparr> blinkSpots :=
                     Some ((case blinkSpots w of None \<Rightarrow> [] | Some spots \<Rightarrow> spots) @ [newBlinkSpot]) \<rparr>))
      else w)"

text \<open>
  The loop. The world is changed in place and nothing catches an exception, so the
  result is the exception that ended the call (\<open>None\<close> when it returned) together with
  the world as the call left it: when the log line throws, the change at hand and all
  changes after it are not applied, the changes before it are.
\<close>

fun alterReality :: "(nat \<Rightarrow> bool) \<Rightarrow> world \<Rightarrow> change list \<Rightarrow> exn option \<times> world" where
  "alterReality unserialisable w [] = (None, w)"
| "alterReality unserialisable w (c # cs) =
     (case json_stringify unserialisable c of
        Inl error \<Rightarrow> (Some error, w)
      | Inr logged \<Rightarrow> alterReality unserialisable (applyChange w c) cs)"

subsection \<open>loadWorld\<close>

text \<open>
  \<^verbatim>\<open>JSON.parse\<close> is the platform's: it either returns the decoded value or throws. It is
  a parameter here, \<open>Inl\<close> being the exception thrown. What \<open>loadWorld\<close> hands back is
  the decoded value or a world made by \<open>createWorld\<close>.
\<close>

datatype 'j loaded = Decoded 'j | Fresh world

definition loadWorld :: "(string \<Rightarrow> exn + 'j) \<Rightarrow> string \<Rightarrow> exn + 'j loaded" where
  "loadWorld json_parse savedState =
     (case json_parse savedState of
        Inr loadedWorld \<Rightarrow> Inr (Decoded loadedWorld)
      | Inl error \<Rightarrow>
          Inr (Fresh (createWorld (Coords (Num 10) (Num 10) (Num 10)) ''default'' ''default'' [])))"

section \<open>QuantumCore.js\<close>

text \<open>
  The properties of an object that this module reads and writes. A property the object
  does not have yet is \<open>JUndefined\<close> (\<open>None\<close> for the array of states).
\<close>

record qobject =
  oid :: jsval
  isEntangled :: jsval
  entangledWith :: jsval
  states :: "jsval list option"
  currentStateIndex :: jsval
  currentState :: jsval

subsection \<open>createEntanglement and breakEntanglement\<close>

text \<open>
  \<^verbatim>\<open>Array.prototype.join\<close> writes \<^verbatim>\<open>undefined\<close> and \<^verbatim>\<open>null\<close> as the empty string and
  a string as itself; the text of any other value is the platform's conversion, the
  parameter \<open>to_string\<close>.
\<close>

definition join_elem :: "(jsval \<Rightarrow> string) \<Rightarrow> jsval \<Rightarrow> string" where
  "join_elem to_string v =
     (case v of JUndefined \<Rightarrow> [] | JNull \<Rightarrow> [] | JStr s \<Rightarrow> s | _ \<Rightarrow> to_string v)"

fun join :: "string \<Rightarrow> string list \<Rightarrow> string" where
  "join sep [] = []"
| "join sep [s] = s"
| "join sep (s # t # rest) = s @ sep @ join sep (t # rest)"

definition createEntanglement :: "(jsval \<Rightarrow> string) \<Rightarrow> qobject list \<Rightarrow> qobject list" where
  "createEntanglement to_string objs =
     (if length objs < 2 then objs
      else (let entangledIds = join '', '' (map (\<lambda>obj. join_elem to_string (oid obj)) objs)
            in map (\<lambda>obj. obj\<lparr> isEntangled := JBool True, entangledWith := JStr entangledIds \<rparr>) objs))"

definition breakEntanglement :: "qobject \<Rightarrow> qobject" where
  "breakEntanglement obj =
     (if truthy (isEntangled obj)
      then obj\<lparr> isEntangled := JBool False, entangledWith := JNull \<rparr>
      else obj)"

subsection \<open>applySuperposition and changeCurrentState\<close>

text \<open>
  \<^verbatim>\<open>states[i]\<close>: the element when \<open>i\<close> is a whole number from 0 up to the length,
  \<^verbatim>\<open>undefined\<close> for every other number.
\<close>

definition array_get :: "jsval list \<Rightarrow> jsnum \<Rightarrow> jsval" where
  "array_get xs i =
     (case i of
        Num r \<Rightarrow>
          (if of_int \<lfloor>r\<rfloor> = r \<and> 0 \<le> r \<and> r < real (length xs) then xs ! nat \<lfloor>r\<rfloor>
           else JUndefined)
      | _ \<Rightarrow> JUndefined)"

definition applySuperposition :: "qobject \<Rightarrow> jsval list \<Rightarrow> jsnum option \<Rightarrow> qobject" where
  "applySuperposition obj sts indexArg =
     (let initialStateIndex = (case indexArg of None \<Rightarrow> Num 0 | Some i \<Rightarrow> i)
      in if length sts < 2 then obj
         else obj\<lparr> states := Some sts,
                   currentStateIndex := JNum initialStateIndex,
                   currentState := array_get sts initialStateIndex \<rparr>)"

definition changeCurrentState :: "qobject \<Rightarrow> jsnum \<Rightarrow> qobject" where
  "changeCurrentState obj newStateIndex =
     (case states obj of
        None \<Rightarrow> obj
      | Some sts \<Rightarrow>
          if num_ge newStateIndex (Num 0) \<and> num_lt newStateIndex (Num (real (length sts)))
          then obj\<lparr> currentStateIndex := JNum newStateIndex,
                    currentState := array_get sts newStateIndex \<rparr>
          else obj)"

section \<open>Invariants and concrete inputs\<close>

text \<open>
  The ids of a list of game objects are in order when no two objects have the same id
  and every id passes the test of \<^verbatim>\<open>add\<close> (it is neither missing nor empty).
\<close>

definition ids_ok :: "entity list \<Rightarrow> bool" where
  "ids_ok objs =
     (distinct (map (\<lambda>e. get e ''id'') objs) \<and> list_all (\<lambda>e. truthy (get e ''id'')) objs)"

text \<open>
  The index of an object in superposition is within its array of states; an object
  without states has nothing to check.
\<close>

definition index_in_bounds :: "qobject \<Rightarrow> bool" where
  "index_in_bounds obj =
     (case states obj of
        None \<Rightarrow> True
      | Some sts \<Rightarrow>
          (case currentStateIndex obj of
             JNum i \<Rightarrow> num_ge i (Num 0) \<and> num_lt i (Num (real (length sts)))
           | _ \<Rightarrow> False))"


text \<open>The worlds, objects and changes of the example code at the end of the two files.\<close>

definition developerWorld :: world where
  "developerWorld =
     createWorld (Coords (Num 100) (Num 100) (Num 100)) ''CosmicDustEntanglement''
       ''BioQuantumEntangled'' [''QuantumGPS'', ''QuantumDeviceMetrics'']"

definition devObj1 :: entity where
  "devObj1 =
     fmap_of_list [(''id'', JStr ''devObj1''), (''position'', JRef 0), (''color'', JStr ''blue'')]"






definition all_plain :: "nat \<Rightarrow> bool" where
  "all_plain r = False"

definition changeAddDev :: change where
  "changeAddDev =
     \<lparr> type = ''add'', object = Some devObj1, targetId = JUndefined, properties = None,
       coordinates = None \<rparr>"

definition changeRemoveDev :: change where
  "changeRemoveDev =
     \<lparr> type = ''remove'', object = None, targetId = JStr ''devObj1'', properties = None,
       coordinates = None \<rparr>"


definition obj1 :: qobject where
  "obj1 = \<lparr> oid = JStr ''A'', isEntangled = JUndefined, entangledWith = JUndefined,
            states = None, currentStateIndex = JUndefined, currentState = JUndefined \<rparr>"

definition obj2 :: qobject where
  "obj2 = \<lparr> oid = JStr ''B'', isEntangled = JUndefined, entangledWith = JUndefined,
            states = None, currentStateIndex = JUndefined, currentState = JUndefined \<rparr>"

definition myObject :: qobject where
  "myObject = \<lparr> oid = JStr ''C'', isEntangled = JUndefined, entangledWith = JUndefined,
               states = None, currentStateIndex = JUndefined, currentState = JUndefined \<rparr>"

text \<open>A world that runs fast forward at twice the speed.\<close>

definition fastWorld :: world where
  "fastWorld = controlTime developerWorld ''FAST FORWARD'' (Some (Num 2))"

text \<open>A decoder that knows two texts and throws on every other one.\<close>

definition toy_parse :: "string \<Rightarrow> exn + nat" where
  "toy_parse s = (if s = ''0'' then Inr 0 else if s = ''1'' then Inr 1 else Inl SyntaxError)"

section \<open>Facts about values\<close>

lemma strict_eq_truthy: "truthy a \<Longrightarrow> strict_eq b a = (b = a)"
  by (cases a; cases b) (auto simp: strict_eq_def truthy_def num_eq_def)

lemma num_gt_not_le: "num_lt (Num 0) s \<Longrightarrow> \<not> num_le s (Num 0)"
  by (cases s) (auto simp: num_le_def num_lt_def num_eq_def)

lemma find_None_conv: "(find P xs = None) = (\<forall>x\<in>set xs. \<not> P x)"
  by (induction xs) auto


section \<open>The time controller\<close>

lemma controlTime_unknown_state:
  "state \<notin> set valid_states \<Longrightarrow> controlTime w state sp = w\<lparr> timeSpeedMultiplier := Num 1 \<rparr>"
  by (simp add: controlTime_def Let_def)

lemma fastWorld_speed: "timeSpeedMultiplier fastWorld = Num 2"
  by (simp add: fastWorld_def controlTime_def valid_states_def Let_def num_le_def num_lt_def
      num_eq_def)

text \<open>
  Claim C1, as amended. For every world and every requested label that is not one of
  PLAY, PAUSE, STOP, FAST FORWARD and REWIND, \<open>controlTime\<close> leaves \<open>timeState\<close> at its
  value before the call and sets \<open>timeSpeedMultiplier\<close> to 1, whatever it was before;
  no other field of the world changes.
\<close>

theorem controlTime_invalid_label:
  assumes "state \<notin> set valid_states"
  shows "timeState (controlTime w state sp) = timeState w
       \<and> timeSpeedMultiplier (controlTime w state sp) = Num 1
       \<and> controlTime w state sp = w\<lparr> timeSpeedMultiplier := Num 1 \<rparr>"
  using assms by (simp add: controlTime_unknown_state)

text \<open>
  Witness for C1: the label UNKNOWN on the world that runs fast forward at speed 2.
\<close>

theorem controlTime_invalid_label_witness:
  "''UNKNOWN'' \<notin> set valid_states
 \<and> timeState (controlTime fastWorld ''UNKNOWN'' None) = timeState fastWorld
 \<and> timeSpeedMultiplier (controlTime fastWorld ''UNKNOWN'' None) = Num 1"
proof -
  have unknown: "''UNKNOWN'' \<notin> set valid_states"
    by (simp add: valid_states_def)
  from controlTime_invalid_label [OF unknown] unknown show ?thesis
    by simp
qed

text \<open>
  Counterexample to C1 as stated (both fields exactly as before the call): on the world
  that runs fast forward at speed 2, the label UNKNOWN is rejected, and the multiplier
  after the call differs from the one before.
\<close>

theorem controlTime_invalid_label_counterexample:
  "''UNKNOWN'' \<notin> set valid_states
 \<and> timeSpeedMultiplier (controlTime fastWorld ''UNKNOWN'' None) \<noteq> timeSpeedMultiplier fastWorld"
  by (simp add: controlTime_unknown_state fastWorld_speed valid_states_def)

text \<open>
  Claim C7. For the states FAST FORWARD and REWIND: with a speed \<open>\<le> 0\<close> the world ends
  in PLAY with multiplier 1, whatever its state before; with a speed \<open>> 0\<close> the requested
  state is set and the multiplier is the given speed.
\<close>

theorem controlTime_speed_fallback:
  assumes "state = ''FAST FORWARD'' \<or> state = ''REWIND''"
  shows "(num_le speed (Num 0) \<longrightarrow>
            timeState (controlTime w state (Some speed)) = ''PLAY''
          \<and> timeSpeedMultiplier (controlTime w state (Some speed)) = Num 1)
       \<and> (num_lt (Num 0) speed \<longrightarrow>
            timeState (controlTime w state (Some speed)) = state
          \<and> timeSpeedMultiplier (controlTime w state (Some speed)) = speed)"
  using assms num_gt_not_le [of speed]
  by (auto simp: controlTime_def valid_states_def Let_def)

text \<open>
  Witness for C7: REWIND at speed \<open>-1\<close> on the fast world, FAST FORWARD at speed 3 on the
  developer world.
\<close>

theorem controlTime_speed_fallback_witness:
  "timeState (controlTime fastWorld ''REWIND'' (Some (Num (- 1)))) = ''PLAY''
 \<and> timeSpeedMultiplier (controlTime fastWorld ''REWIND'' (Some (Num (- 1)))) = Num 1
 \<and> timeState (controlTime developerWorld ''FAST FORWARD'' (Some (Num 3))) = ''FAST FORWARD''
 \<and> timeSpeedMultiplier (controlTime developerWorld ''FAST FORWARD'' (Some (Num 3))) = Num 3"
  using controlTime_speed_fallback [of "''REWIND''" "Num (- 1)" fastWorld]
        controlTime_speed_fallback [of "''FAST FORWARD''" "Num 3" developerWorld]
  by (simp add: num_le_def num_lt_def num_eq_def)

text \<open>
  Every speed that compares with 0 leaves a positive multiplier: the guards
  \<^verbatim>\<open>speed <= 0\<close> catch the non-positive ones.
\<close>

lemma controlTime_positive:
  "speedArg \<noteq> Some NaN \<Longrightarrow> num_lt (Num 0) (timeSpeedMultiplier (controlTime w state speedArg))"
  by (cases speedArg)
    (auto simp: controlTime_def valid_states_def Let_def num_le_def num_lt_def num_eq_def
      split: jsnum.splits)

text \<open>
  Claim C10 (the multiplier is strictly positive after every call) fails on the code:
  \<^verbatim>\<open>controlTime(developerWorld, "FAST FORWARD", NaN)\<close>. The guard \<^verbatim>\<open>speed <= 0\<close> is
  false for NaN, so the world keeps the state FAST FORWARD with the multiplier NaN, and
  NaN is not greater than 0.
\<close>

theorem controlTime_nan_speed:
  "timeState (controlTime developerWorld ''FAST FORWARD'' (Some NaN)) = ''FAST FORWARD''
 \<and> timeSpeedMultiplier (controlTime developerWorld ''FAST FORWARD'' (Some NaN)) = NaN
 \<and> \<not> num_lt (Num 0) (timeSpeedMultiplier (controlTime developerWorld ''FAST FORWARD'' (Some NaN)))"
  by (simp add: controlTime_def valid_states_def Let_def num_le_def num_lt_def num_eq_def)

section \<open>The change protocol\<close>

subsection \<open>The log line\<close>




lemma stringify_remove:
  "type c = ''remove'' \<Longrightarrow> object c = None \<Longrightarrow> properties c = None
   \<Longrightarrow> serialisable u (targetId c) \<Longrightarrow> json_stringify u c = Inr ()"
  by (simp add: json_stringify_def)




subsection \<open>Unique ids\<close>

lemma ids_ok_add:
  assumes "ids_ok (objects w)" and "type c = ''add''"
  shows "ids_ok (objects (applyChange w c))"
proof (cases "object c")
  case None
  with assms show ?thesis by (simp add: applyChange_def)
next
  case (Some obj)
  note present = this
  show ?thesis
  proof (cases "truthy (get obj ''id'')")
    case False
    with present assms show ?thesis by (simp add: applyChange_def)
  next
    case True
    show ?thesis
    proof (cases "find (\<lambda>e. strict_eq (get e ''id'') (get obj ''id'')) (objects w)")
      case (Some existingObject)
      with present True assms show ?thesis by (simp add: applyChange_def)
    next
      case None
      with True have "\<forall>e\<in>set (objects w). get e ''id'' \<noteq> get obj ''id''"
        by (simp add: find_None_conv strict_eq_truthy)
      then have "get obj ''id'' \<notin> (\<lambda>e. get e ''id'') ` set (objects w)"
        by auto
      with None present True assms show ?thesis
        by (simp add: applyChange_def ids_ok_def)
    qed
  qed
qed

lemma ids_ok_remove:
  assumes "ids_ok (objects w)" and "type c = ''remove''"
  shows "ids_ok (objects (applyChange w c))"
  using assms by (simp add: applyChange_def ids_ok_def distinct_map_filter list_all_iff)

lemma ids_ok_alterReality:
  "ids_ok (objects w) \<Longrightarrow> \<forall>c\<in>set cs. type c = ''add'' \<or> type c = ''remove''
   \<Longrightarrow> ids_ok (objects (snd (alterReality u w cs)))"
proof (induction cs arbitrary: w)
  case Nil
  then show ?case by simp
next
  case (Cons c cs)
  show ?case
  proof (cases "json_stringify u c")
    case (Inl error)
    with Cons.prems show ?thesis by simp
  next
    case (Inr logged)
    from Cons.prems have "ids_ok (objects (applyChange w c))"
      using ids_ok_add ids_ok_remove by auto
    with Cons Inr show ?thesis by simp
  qed
qed

lemma ids_ok_createWorld: "ids_ok (objects (createWorld d oc pm ds))"
  by (simp add: createWorld_def ids_ok_def)

text \<open>
  Claim C3. In a world made by \<open>createWorld\<close>, after any sequence of \<^verbatim>\<open>add\<close> and
  \<^verbatim>\<open>remove\<close> changes applied by \<open>alterReality\<close>, no two objects of the world have the
  same id, whether the call returned or threw. The sequence is arbitrary, so this holds
  after each of its prefixes too.
\<close>

theorem alterReality_unique_ids:
  assumes "\<forall>c\<in>set cs. type c = ''add'' \<or> type c = ''remove''"
  shows "distinct (map (\<lambda>e. get e ''id'')
           (objects (snd (alterReality u (createWorld d oc pm ds) cs))))"
  using ids_ok_alterReality [OF ids_ok_createWorld assms] by (simp add: ids_ok_def)

text \<open>
  Witness for C3: the developer world after adding the same object twice, removing it
  and adding it again.
\<close>

theorem alterReality_unique_ids_witness:
  "distinct (map (\<lambda>e. get e ''id'')
     (objects (snd (alterReality all_plain developerWorld
        [changeAddDev, changeAddDev, changeRemoveDev, changeAddDev]))))"
  unfolding developerWorld_def
  by (rule alterReality_unique_ids) (simp add: changeAddDev_def changeRemoveDev_def)

subsection \<open>Add\<close>




subsection \<open>Remove\<close>



subsection \<open>Modify\<close>




text \<open>
  A world that holds an object with a given id splits at the first such object, which is
  the one \<^verbatim>\<open>find\<close> returns.
\<close>

lemma first_with_id:
  assumes "\<exists>x\<in>set objs. strict_eq (get x ''id'') tid"
  shows "\<exists>pre e post. objs = pre @ e # post \<and> strict_eq (get e ''id'') tid
           \<and> (\<forall>x\<in>set pre. \<not> strict_eq (get x ''id'') tid)"
  using split_list_first_prop [OF assms] by blast








section \<open>The snapshot codec\<close>

text \<open>
  Claim C8. For every decoder and every input text, \<open>loadWorld\<close> returns a value and
  raises nothing: what the decoder returned when it decodes the text, and when the
  decoder throws, a world fresh from \<open>createWorld\<close> with the dimensions (10, 10, 10),
  the composition and the processing model \<^verbatim>\<open>"default"\<close>, no data sources, no objects
  and the time state PLAY.
\<close>

theorem loadWorld_never_raises:
  "(\<exists>v. loadWorld json_parse s = Inr v)
 \<and> (\<forall>j. json_parse s = Inr j \<longrightarrow> loadWorld json_parse s = Inr (Decoded j))
 \<and> (\<forall>e. json_parse s = Inl e \<longrightarrow>
       (\<exists>w. loadWorld json_parse s = Inr (Fresh w)
          \<and> w = createWorld (Coords (Num 10) (Num 10) (Num 10)) ''default'' ''default'' []
          \<and> dimensions w = Coords (Num 10) (Num 10) (Num 10)
          \<and> ocularComposition w = ''default'' \<and> processingModel w = ''default''
          \<and> dataSources w = [] \<and> objects w = [] \<and> timeState w = ''PLAY''
          \<and> timeSpeedMultiplier w = Num 1))"
  by (cases "json_parse s") (simp_all add: loadWorld_def createWorld_def)

text \<open>
  Witness for C8: the text \<^verbatim>\<open>not valid data\<close>, on which the decoder throws, and the
  text \<^verbatim>\<open>1\<close>, which it decodes.
\<close>

theorem loadWorld_never_raises_witness:
  "loadWorld toy_parse ''not valid data''
     = Inr (Fresh (createWorld (Coords (Num 10) (Num 10) (Num 10)) ''default'' ''default'' []))
 \<and> loadWorld toy_parse ''1'' = Inr (Decoded 1)"
  using loadWorld_never_raises [of toy_parse "''not valid data''"]
        loadWorld_never_raises [of toy_parse "''1''"]
  by (auto simp: toy_parse_def)

section \<open>Entanglement\<close>

lemma join_contains:
  "x \<in> set xs \<Longrightarrow> \<exists>before after. join sep xs = before @ x @ after"
proof (induction sep xs rule: join.induct)
  case (1 sep)
  then show ?case by simp
next
  case (2 sep s)
  then have "join sep [s] = [] @ x @ []" by simp
  then show ?case by blast
next
  case (3 sep s t rest)
  show ?case
  proof (cases "x = s")
    case True
    then have "join sep (s # t # rest) = [] @ x @ (sep @ join sep (t # rest))" by simp
    then show ?thesis by blast
  next
    case False
    with 3 obtain before after where "join sep (t # rest) = before @ x @ after" by auto
    then have "join sep (s # t # rest) = (s @ sep @ before) @ x @ after" by simp
    then show ?thesis by blast
  qed
qed

lemma createEntanglement_oid: "map oid (createEntanglement ts objs) = map oid objs"
  by (simp add: createEntanglement_def Let_def comp_def)

lemma createEntanglement_twice:
  "createEntanglement ts (createEntanglement ts objs) = createEntanglement ts objs"
  by (simp add: createEntanglement_def Let_def comp_def)

text \<open>
  Claim C9. With two or more objects, \<open>createEntanglement\<close> sets \<open>isEntangled\<close> of
  every object to true and stores in \<open>entangledWith\<close> of every object the ids of all
  the objects given, joined by a comma and a space; the text is the same for every
  object, so it holds the object's own id too (nothing is filtered out), and the ids
  stay as they were. Calling it again on the result changes nothing. With fewer than
  two objects it changes nothing at all.
\<close>

theorem createEntanglement_links_all:
  "(2 \<le> length objs \<longrightarrow>
      (\<forall>obj\<in>set (createEntanglement ts objs).
          isEntangled obj = JBool True
        \<and> entangledWith obj = JStr (join '', '' (map (\<lambda>p. join_elem ts (oid p)) objs))
        \<and> (\<exists>before after. join '', '' (map (\<lambda>p. join_elem ts (oid p)) objs)
                             = before @ join_elem ts (oid obj) @ after))
      \<and> map oid (createEntanglement ts objs) = map oid objs)
 \<and> createEntanglement ts (createEntanglement ts objs) = createEntanglement ts objs
 \<and> (length objs < 2 \<longrightarrow> createEntanglement ts objs = objs)"
proof (intro conjI impI ballI)
  fix obj
  assume len: "2 \<le> length objs" and mem: "obj \<in> set (createEntanglement ts objs)"
  from len mem show "isEntangled obj = JBool True"
    by (auto simp: createEntanglement_def Let_def)
  from len mem
  show "entangledWith obj = JStr (join '', '' (map (\<lambda>p. join_elem ts (oid p)) objs))"
    by (auto simp: createEntanglement_def Let_def)
  from mem have "oid obj \<in> set (map oid (createEntanglement ts objs))"
    by simp
  then have "oid obj \<in> oid ` set objs"
    by (simp add: createEntanglement_oid)
  then have "join_elem ts (oid obj) \<in> set (map (\<lambda>p. join_elem ts (oid p)) objs)"
    by auto
  then show "\<exists>before after. join '', '' (map (\<lambda>p. join_elem ts (oid p)) objs)
                             = before @ join_elem ts (oid obj) @ after"
    by (rule join_contains)
next
  show "map oid (createEntanglement ts objs) = map oid objs"
    by (rule createEntanglement_oid)
next
  show "createEntanglement ts (createEntanglement ts objs) = createEntanglement ts objs"
    by (rule createEntanglement_twice)
next
  assume "length objs < 2"
  then show "createEntanglement ts objs = objs"
    by (simp add: createEntanglement_def)
qed

text \<open>
  Witness for C9: the objects A and B of the example code; both end entangled with the
  text \<^verbatim>\<open>A, B\<close>, and a list of one object stays as it is.
\<close>

theorem createEntanglement_links_all_witness:
  "list_all (\<lambda>obj. isEntangled obj = JBool True \<and> entangledWith obj = JStr ''A, B'')
     (createEntanglement (\<lambda>v. []) [obj1, obj2])
 \<and> map oid (createEntanglement (\<lambda>v. []) [obj1, obj2]) = [JStr ''A'', JStr ''B'']
 \<and> createEntanglement (\<lambda>v. []) [obj1] = [obj1]"
  using createEntanglement_links_all [of "[obj1, obj2]" "\<lambda>v. []"]
        createEntanglement_links_all [of "[obj1]" "\<lambda>v. []"]
  by (simp add: list_all_iff obj1_def obj2_def join_elem_def)

section \<open>Superposition\<close>

text \<open>
  \<open>changeCurrentState\<close> checks the index it is given, so it keeps the index of an
  object within the array of its states; \<open>applySuperposition\<close> stores the index it is
  given and keeps the bound only when the caller gives an index within the new array.
\<close>

lemma changeCurrentState_bounds:
  "index_in_bounds obj \<Longrightarrow> index_in_bounds (changeCurrentState obj i)"
  by (auto simp: changeCurrentState_def index_in_bounds_def split: option.splits)

lemma applySuperposition_bounds:
  "index_in_bounds obj \<Longrightarrow> num_ge i (Num 0) \<Longrightarrow> num_lt i (Num (real (length sts)))
   \<Longrightarrow> index_in_bounds (applySuperposition obj sts (Some i))"
  by (auto simp: applySuperposition_def index_in_bounds_def Let_def)

lemma applySuperposition_default_bounds:
  "index_in_bounds obj \<Longrightarrow> index_in_bounds (applySuperposition obj sts None)"
  by (auto simp: applySuperposition_def index_in_bounds_def Let_def num_ge_def num_le_def
      num_lt_def num_eq_def)

text \<open>
  Claim C2 (the index is within the array of states after every call, an out-of-range
  initial index included) fails on the code:
  \<^verbatim>\<open>applySuperposition(myObject, ["red", "green", "blue"], 5)\<close> stores the three states
  with the index 5 and the current state \<^verbatim>\<open>undefined\<close>.
\<close>

theorem applySuperposition_index_out_of_bounds:
  "states (applySuperposition myObject [JStr ''red'', JStr ''green'', JStr ''blue''] (Some (Num 5)))
     = Some [JStr ''red'', JStr ''green'', JStr ''blue'']
 \<and> currentStateIndex
       (applySuperposition myObject [JStr ''red'', JStr ''green'', JStr ''blue''] (Some (Num 5)))
     = JNum (Num 5)
 \<and> currentState
       (applySuperposition myObject [JStr ''red'', JStr ''green'', JStr ''blue''] (Some (Num 5)))
     = JUndefined
 \<and> \<not> index_in_bounds
       (applySuperposition myObject [JStr ''red'', JStr ''green'', JStr ''blue''] (Some (Num 5)))"
  by (simp add: applySuperposition_def index_in_bounds_def array_get_def num_lt_def num_ge_def
      num_le_def num_eq_def)

end
